theory Spec2Isabelle
  imports Complex_Main
begin

section \<open>Python values and exceptions\<close>

text \<open>
  The voice shopping agent passes JSON-shaped Python values around: tool arguments,
  tool results, cart lines (\<^verbatim>\<open>cart: List\<close> holds dicts from the web front end or
  \<^verbatim>\<open>CartItem\<close> dataclass objects), upstream events and client frames.  They are
  modelled by one datatype.  A dict is an association list in insertion order; an
  object (a dataclass instance) is the association list of its attributes.  Python
  floats are modelled by exact reals: rounding, infinities and NaN are outside the model.
\<close>

datatype pyval =
    VNone
  | VBool bool
  | VInt int
  | VFloat real
  | VStr string
  | VList "pyval list"
  | VDict "(string \<times> pyval) list"
  | VObj "(string \<times> pyval) list"

text \<open>Every \<^verbatim>\<open>raise\<close> of the source is a value; \<open>exn_str\<close> is \<^verbatim>\<open>str(e)\<close>.\<close>

datatype exn =
    KeyError string
  | TypeError string
  | AttributeError string
  | IndexError string
  | ConnectionClosed string
  | OtherError string

fun exn_str :: "exn \<Rightarrow> string" where
  "exn_str (KeyError k) = [CHR 0x27] @ k @ [CHR 0x27]"
| "exn_str (TypeError m) = m"
| "exn_str (AttributeError m) = m"
| "exn_str (IndexError m) = m"
| "exn_str (ConnectionClosed m) = m"
| "exn_str (OtherError m) = m"

text \<open>Sequencing of fallible steps: the first exception ends the block.\<close>

definition bind :: "exn + 'a \<Rightarrow> ('a \<Rightarrow> exn + 'b) \<Rightarrow> exn + 'b" where
  "bind m f = (case m of Inl e \<Rightarrow> Inl e | Inr x \<Rightarrow> f x)"

subsection \<open>Dicts, attributes, indexing\<close>

definition dict_get :: "(string \<times> pyval) list \<Rightarrow> string \<Rightarrow> pyval \<Rightarrow> pyval" where
  \<comment> \<open>\<^verbatim>\<open>d.get(k, default)\<close>\<close>
  "dict_get d k dflt = (case map_of d k of None \<Rightarrow> dflt | Some v \<Rightarrow> v)"

definition dict_item :: "(string \<times> pyval) list \<Rightarrow> string \<Rightarrow> exn + pyval" where
  \<comment> \<open>\<^verbatim>\<open>d[k]\<close>\<close>
  "dict_item d k = (case map_of d k of None \<Rightarrow> Inl (KeyError k) | Some v \<Rightarrow> Inr v)"

fun dict_set :: "(string \<times> pyval) list \<Rightarrow> string \<Rightarrow> pyval \<Rightarrow> (string \<times> pyval) list" where
  \<comment> \<open>\<^verbatim>\<open>d[k] = v\<close>: an existing key keeps its place, a new key goes last\<close>
  "dict_set [] k v = [(k, v)]"
| "dict_set ((k', v') # d) k v = (if k' = k then (k, v) # d else (k', v') # dict_set d k v)"

fun py_get :: "pyval \<Rightarrow> string \<Rightarrow> pyval \<Rightarrow> exn + pyval" where
  \<comment> \<open>the method call \<^verbatim>\<open>x.get(k, default)\<close>: only a dict has it\<close>
  "py_get (VDict d) k dflt = Inr (dict_get d k dflt)"
| "py_get _ k dflt = Inl (AttributeError ''object has no attribute get'')"

fun py_attr :: "pyval \<Rightarrow> string \<Rightarrow> exn + pyval" where
  \<comment> \<open>the attribute read \<^verbatim>\<open>x.a\<close> on a dataclass object\<close>
  "py_attr (VObj as) a =
     (case map_of as a of None \<Rightarrow> Inl (AttributeError a) | Some v \<Rightarrow> Inr v)"
| "py_attr _ a = Inl (AttributeError a)"

fun is_dict :: "pyval \<Rightarrow> bool" where
  \<comment> \<open>\<^verbatim>\<open>isinstance(x, dict)\<close>\<close>
  "is_dict (VDict d) = True"
| "is_dict _ = False"

fun py_truthy :: "pyval \<Rightarrow> bool" where
  "py_truthy VNone = False"
| "py_truthy (VBool b) = b"
| "py_truthy (VInt i) = (i \<noteq> 0)"
| "py_truthy (VFloat r) = (r \<noteq> 0)"
| "py_truthy (VStr s) = (s \<noteq> [])"
| "py_truthy (VList xs) = (xs \<noteq> [])"
| "py_truthy (VDict d) = (d \<noteq> [])"
| "py_truthy (VObj as) = True"

definition list_index :: "'a list \<Rightarrow> int \<Rightarrow> exn + 'a" where
  \<comment> \<open>\<^verbatim>\<open>xs[i]\<close>; \<^verbatim>\<open>xs[-k]\<close> is the k-th element from the end\<close>
  "list_index xs i =
     (if 0 \<le> i \<and> nat i < length xs then Inr (xs ! nat i)
      else if i < 0 \<and> nat (- i) \<le> length xs then Inr (xs ! (length xs - nat (- i)))
      else Inl (IndexError ''list index out of range''))"

fun py_getitem :: "pyval \<Rightarrow> pyval \<Rightarrow> exn + pyval" where
  \<comment> \<open>\<^verbatim>\<open>x[k]\<close>\<close>
  "py_getitem (VDict d) (VStr k) = dict_item d k"
| "py_getitem (VDict d) _ = Inl (KeyError ''?'')"
| "py_getitem (VList xs) (VInt i) = list_index xs i"
| "py_getitem (VList xs) (VBool b) = list_index xs (if b then 1 else 0)"
| "py_getitem (VList xs) _ = Inl (TypeError ''list indices must be integers'')"
| "py_getitem (VStr s) (VInt i) = bind (list_index s i) (\<lambda>c. Inr (VStr [c]))"
| "py_getitem (VStr s) (VBool b) =
     bind (list_index s (if b then 1 else 0)) (\<lambda>c. Inr (VStr [c]))"
| "py_getitem (VStr s) _ = Inl (TypeError ''string indices must be integers'')"
| "py_getitem _ _ = Inl (TypeError ''object is not subscriptable'')"

subsection \<open>Arithmetic\<close>

text \<open>
  A bool is an int in Python.  \<open>to_num\<close> reads the numeric values; an int stays an
  int under \<^verbatim>\<open>+\<close> and \<^verbatim>\<open>*\<close> with an int, and a float makes the result a float.
\<close>

datatype num = NInt int | NFloat real

fun to_num :: "pyval \<Rightarrow> num option" where
  "to_num (VBool b) = Some (NInt (if b then 1 else 0))"
| "to_num (VInt i) = Some (NInt i)"
| "to_num (VFloat r) = Some (NFloat r)"
| "to_num _ = None"

fun num_real :: "num \<Rightarrow> real" where
  "num_real (NInt i) = real_of_int i"
| "num_real (NFloat r) = r"

fun num_mul :: "num \<Rightarrow> num \<Rightarrow> pyval" where
  "num_mul (NInt a) (NInt b) = VInt (a * b)"
| "num_mul a b = VFloat (num_real a * num_real b)"

fun num_add :: "num \<Rightarrow> num \<Rightarrow> pyval" where
  "num_add (NInt a) (NInt b) = VInt (a + b)"
| "num_add a b = VFloat (num_real a + num_real b)"

fun seq_repeat :: "int \<Rightarrow> pyval \<Rightarrow> exn + pyval" where
  \<comment> \<open>\<^verbatim>\<open>s * n\<close> on a str or a list; a count below one gives the empty sequence\<close>
  "seq_repeat n (VStr s) = Inr (VStr (concat (replicate (nat n) s)))"
| "seq_repeat n (VList xs) = Inr (VList (concat (replicate (nat n) xs)))"
| "seq_repeat n _ = Inl (TypeError ''unsupported operand type(s) for *'')"

definition py_mul :: "pyval \<Rightarrow> pyval \<Rightarrow> exn + pyval" where
  "py_mul a b =
     (case (to_num a, to_num b) of
        (Some x, Some y) \<Rightarrow> Inr (num_mul x y)
      | (Some (NInt n), None) \<Rightarrow> seq_repeat n b
      | (None, Some (NInt n)) \<Rightarrow> seq_repeat n a
      | _ \<Rightarrow> Inl (TypeError ''unsupported operand type(s) for *''))"

definition py_add :: "pyval \<Rightarrow> pyval \<Rightarrow> exn + pyval" where
  "py_add a b =
     (case (to_num a, to_num b) of
        (Some x, Some y) \<Rightarrow> Inr (num_add x y)
      | (None, None) \<Rightarrow>
          (case (a, b) of
             (VStr s, VStr t) \<Rightarrow> Inr (VStr (s @ t))
           | (VList xs, VList ys) \<Rightarrow> Inr (VList (xs @ ys))
           | _ \<Rightarrow> Inl (TypeError ''unsupported operand type(s) for +''))
      | _ \<Rightarrow> Inl (TypeError ''unsupported operand type(s) for +''))"

definition py_eq :: "pyval \<Rightarrow> pyval \<Rightarrow> bool" where
  \<comment> \<open>\<^verbatim>\<open>a == b\<close>: numbers by value across bool, int and float; anything else
      structurally (the values compared in this program are record ids, which are scalars)\<close>
  "py_eq a b =
     (case (to_num a, to_num b) of
        (Some x, Some y) \<Rightarrow> num_real x = num_real y
      | (None, None) \<Rightarrow> a = b
      | _ \<Rightarrow> False)"

subsection \<open>Text\<close>

fun show_nat :: "nat \<Rightarrow> string" where
  "show_nat n =
     (if n < 10 then [char_of (48 + n)] else show_nat (n div 10) @ [char_of (48 + n mod 10)])"

declare show_nat.simps [simp del]

definition show_int :: "int \<Rightarrow> string" where
  "show_int i = (if i < 0 then CHR ''-'' # show_nat (nat (- i)) else show_nat (nat i))"

definition str_replace_quote :: "string \<Rightarrow> string" where
  \<comment> \<open>\<^verbatim>\<open>s.replace("'", "\\'")\<close>: a backslash before every single quote\<close>
  "str_replace_quote s = concat (map (\<lambda>c. if c = CHR 0x27 then [CHR 0x5C, CHR 0x27] else [c]) s)"

definition is_space :: "char \<Rightarrow> bool" where
  "is_space c = (c \<in> {CHR '' '', CHR 0x09, CHR 0x0A, CHR 0x0B, CHR 0x0C, CHR 0x0D})"

fun split_from :: "string \<Rightarrow> string \<Rightarrow> string list" where
  \<comment> \<open>\<^verbatim>\<open>s.split()\<close>: the maximal runs of non-blank characters; the first argument is
      the word being read\<close>
  "split_from w [] = (if w = [] then [] else [w])"
| "split_from w (c # cs) =
     (if is_space c then (if w = [] then split_from [] cs else w # split_from [] cs)
      else split_from (w @ [c]) cs)"

definition py_split :: "string \<Rightarrow> string list" where
  "py_split s = split_from [] s"

section \<open>The outside world\<close>

text \<open>
  The Salesforce gateway (\<^verbatim>\<open>salesforce.client\<close>), the language model behind
  \<^verbatim>\<open>interpret_search_query\<close>, the JSON parser and the clock are not part of the program.
  They are parameters: each call returns a value or raises.  A SOQL query is kept as the
  template it is built from together with the values spliced into it.
\<close>

datatype cond =
    FamilyIs pyval
  | ColorLike pyval
  | SizeLike pyval
  | NameOrDescriptionLike pyval
  | PriceAtMost pyval
  | PriceAtLeast pyval

datatype soql =
    ProductSearch "cond list"
  | ProductByName string
  | UnitPriceOfEntry pyval
  | OrderNumberOfOrder pyval
  | OrdersByEmail pyval

record world =
  sf_query :: "soql \<Rightarrow> exn + pyval"
  upsert_account :: "pyval \<Rightarrow> pyval \<Rightarrow> pyval \<Rightarrow> exn + pyval"
  get_standard_pricebook :: "exn + pyval"
  create_order :: "pyval \<Rightarrow> exn + pyval"
  create_order_item :: "pyval \<Rightarrow> exn + pyval"
  get_order_status :: "pyval \<Rightarrow> exn + pyval"
  llm_parse :: "string \<Rightarrow> exn + pyval"
  llm_fallback :: "string \<Rightarrow> exn + pyval"
  json_loads :: "pyval \<Rightarrow> exn + pyval"
  b64decode :: "pyval \<Rightarrow> exn + pyval"
  repr_other :: "pyval \<Rightarrow> string"
  today :: string
  now_iso :: string

fun py_str :: "world \<Rightarrow> pyval \<Rightarrow> string" where
  \<comment> \<open>\<^verbatim>\<open>str(v)\<close>, also what an f-string splices; the text of a float, a container or an
      object is left to the parameter\<close>
  "py_str w (VStr s) = s"
| "py_str w VNone = ''None''"
| "py_str w (VBool b) = (if b then ''True'' else ''False'')"
| "py_str w (VInt i) = show_int i"
| "py_str w v = repr_other w v"

section \<open>The cart (backend/tools.py)\<close>

subsection \<open>calculate\_cart\_total\<close>

definition item_price_quantity :: "pyval \<Rightarrow> exn + (pyval \<times> pyval)" where
  \<comment> \<open>the two reads of the \<^verbatim>\<open>try\<close> block, for the web format
      \<^verbatim>\<open>{'product': {...}, 'quantity': 1}\<close> and for \<^verbatim>\<open>CartItem\<close>\<close>
  "item_price_quantity item =
     (if is_dict item then
        bind (py_get item ''product'' (VDict [])) (\<lambda>product.
        bind (py_get product ''price'' (VInt 0)) (\<lambda>price.
        bind (py_get item ''quantity'' (VInt 0)) (\<lambda>quantity.
        Inr (price, quantity))))
      else
        bind (py_attr item ''product'') (\<lambda>product.
        bind (py_attr product ''price'') (\<lambda>price.
        bind (py_attr item ''quantity'') (\<lambda>quantity.
        Inr (price, quantity)))))"

definition total_add :: "real \<Rightarrow> pyval \<Rightarrow> exn + real" where
  \<comment> \<open>\<^verbatim>\<open>total += x\<close> with \<^verbatim>\<open>total\<close> a float: only a number can be added\<close>
  "total_add tot x =
     (case to_num x of
        Some n \<Rightarrow> Inr (tot + num_real n)
      | None \<Rightarrow> Inl (TypeError ''unsupported operand type(s) for +=''))"

definition add_item_total :: "real \<Rightarrow> pyval \<Rightarrow> exn + real" where
  \<comment> \<open>the body of the \<^verbatim>\<open>try\<close> block of one loop round\<close>
  "add_item_total tot item =
     bind (item_price_quantity item) (\<lambda>(price, quantity).
     bind (py_mul price quantity) (\<lambda>amount.
     total_add tot amount))"

fun cart_total_from :: "real \<Rightarrow> pyval list \<Rightarrow> exn + real" where
  \<comment> \<open>the \<^verbatim>\<open>for\<close> loop: \<^verbatim>\<open>except Exception: continue\<close> keeps the running total\<close>
  "cart_total_from tot [] = Inr tot"
| "cart_total_from tot (item # cart) =
     (case add_item_total tot item of
        Inl e \<Rightarrow> cart_total_from tot cart
      | Inr tot' \<Rightarrow> cart_total_from tot' cart)"

definition calculate_cart_total :: "pyval list \<Rightarrow> exn + real" where
  "calculate_cart_total cart = cart_total_from 0 cart"

subsection \<open>tool\_add\_to\_cart\<close>

definition failure :: "string \<Rightarrow> pyval" where
  \<comment> \<open>\<^verbatim>\<open>{"success": False, "message": m}\<close>\<close>
  "failure m = VDict [(''success'', VBool False), (''message'', VStr m)]"


definition product_dict_of :: "pyval \<Rightarrow> pyval \<Rightarrow> exn + pyval" where
  \<comment> \<open>the dict literal built from the Salesforce record and its price book entry\<close>
  "product_dict_of record pbe =
     bind (py_getitem record (VStr ''Id'')) (\<lambda>rid.
     bind (py_getitem record (VStr ''Name'')) (\<lambda>name.
     bind (py_getitem pbe (VStr ''UnitPrice'')) (\<lambda>price.
     bind (py_get record ''Description'' (VStr [])) (\<lambda>description.
     bind (py_get record ''Color__c'' (VStr [])) (\<lambda>color.
     bind (py_get record ''Size__c'' (VStr [])) (\<lambda>size.
     bind (py_get record ''ProductCode'' (VStr [])) (\<lambda>product_code.
     bind (py_getitem pbe (VStr ''Id'')) (\<lambda>pbe_id.
     bind (py_get record ''Family'' (VStr [])) (\<lambda>category.
     bind (py_get record ''Image_URL__c'' (VStr [])) (\<lambda>image_url.
     Inr (VDict [(''id'', rid), (''name'', name), (''price'', price),
                 (''description'', description), (''color'', color), (''size'', size),
                 (''product_code'', product_code), (''pricebook_entry_id'', pbe_id),
                 (''category'', category), (''image_url'', image_url)])))))))))))"

definition fetch_product :: "world \<Rightarrow> pyval \<Rightarrow> exn + pyval option" where
  \<comment> \<open>"Fetch product details": \<open>None\<close> when the query has no record\<close>
  "fetch_product w product_name =
     (case product_name of
        VStr s \<Rightarrow>
          bind (sf_query w (ProductByName (str_replace_quote s))) (\<lambda>product_query.
          bind (py_getitem product_query (VStr ''records'')) (\<lambda>records.
          if \<not> py_truthy records then Inr None
          else
            bind (py_getitem records (VInt 0)) (\<lambda>record.
            bind (py_getitem record (VStr ''PricebookEntries'')) (\<lambda>entries.
            bind (py_getitem entries (VStr ''records'')) (\<lambda>entry_records.
            bind (py_getitem entry_records (VInt 0)) (\<lambda>pbe.
            bind (product_dict_of record pbe) (\<lambda>product_dict.
            Inr (Some product_dict))))))))
      | _ \<Rightarrow> Inl (AttributeError ''replace''))"

definition existing_product_id :: "pyval \<Rightarrow> exn + pyval" where
  "existing_product_id item =
     (if is_dict item then
        bind (py_get item ''product'' (VDict [])) (\<lambda>product. py_get product ''id'' VNone)
      else
        bind (py_attr item ''product'') (\<lambda>product. py_attr product ''id''))"

definition add_quantity :: "pyval \<Rightarrow> pyval \<Rightarrow> exn + pyval" where
  \<comment> \<open>\<^verbatim>\<open>item['quantity'] += quantity\<close> or \<^verbatim>\<open>item.quantity += quantity\<close>; the line is
      changed only when the read and the addition have not raised\<close>
  "add_quantity item quantity =
     (case item of
        VDict d \<Rightarrow>
          bind (dict_item d ''quantity'') (\<lambda>q.
          bind (py_add q quantity) (\<lambda>q'. Inr (VDict (dict_set d ''quantity'' q'))))
      | VObj as \<Rightarrow>
          bind (py_attr item ''quantity'') (\<lambda>q.
          bind (py_add q quantity) (\<lambda>q'. Inr (VObj (dict_set as ''quantity'' q'))))
      | _ \<Rightarrow> Inl (AttributeError ''quantity''))"

fun update_existing :: "pyval \<Rightarrow> pyval \<Rightarrow> pyval list \<Rightarrow> exn + pyval list option" where
  \<comment> \<open>the \<^verbatim>\<open>for item in cart\<close> loop: the cart with the first matching line updated, or
      \<open>None\<close> when the loop ends without a match\<close>
  "update_existing pid quantity [] = Inr None"
| "update_existing pid quantity (item # rest) =
     bind (existing_product_id item) (\<lambda>eid.
       if py_eq eid pid then
         bind (add_quantity item quantity) (\<lambda>item'. Inr (Some (item' # rest)))
       else
         bind (update_existing pid quantity rest) (\<lambda>r. Inr (map_option ((#) item) r)))"

definition add_to_cart_body :: "world \<Rightarrow> pyval \<Rightarrow> pyval \<Rightarrow> pyval list \<Rightarrow> exn + (pyval \<times> pyval list)" where
  \<comment> \<open>the \<^verbatim>\<open>try\<close> block: the result dict and the cart as the call leaves it\<close>
  "add_to_cart_body w product_name quantity cart =
     bind (fetch_product w product_name) (\<lambda>found.
     case found of
       None \<Rightarrow> Inr (failure ''Product not found'', cart)
     | Some product_dict \<Rightarrow>
         bind (py_getitem product_dict (VStr ''id'')) (\<lambda>pid.
         bind (py_getitem product_dict (VStr ''name'')) (\<lambda>name.
         bind (update_existing pid quantity cart) (\<lambda>updated.
         case updated of
           Some cart' \<Rightarrow>
             bind (calculate_cart_total cart') (\<lambda>cart_total.
             Inr (VDict [(''success'', VBool True),
                         (''message'', VStr (''Updated '' @ py_str w name @ '' quantity in cart'')),
                         (''cart_total'', VFloat cart_total)], cart'))
         | None \<Rightarrow>
             (let cart' = cart @ [VDict [(''product'', product_dict), (''quantity'', quantity)]]
              in bind (calculate_cart_total cart') (\<lambda>cart_total.
                 Inr (VDict [(''success'', VBool True),
                             (''message'', VStr (''Added '' @ py_str w quantity @ ''x ''
                                                  @ py_str w name @ '' to cart'')),
                             (''cart_total'', VFloat cart_total)], cart')))))))"

definition tool_add_to_cart :: "world \<Rightarrow> pyval \<Rightarrow> pyval \<Rightarrow> pyval list \<Rightarrow> pyval \<times> pyval list" where
  \<comment> \<open>\<^verbatim>\<open>except Exception\<close>: a failure result, the cart as it was\<close>
  "tool_add_to_cart w product_name quantity cart =
     (case add_to_cart_body w product_name quantity cart of
        Inl e \<Rightarrow> (failure (''Error adding to cart: '' @ exn_str e), cart)
      | Inr r \<Rightarrow> r)"

subsection \<open>One line per product\<close>



subsection \<open>The total as the specification words it\<close>

text \<open>
  A number read from a line, or nothing when the line does not carry one there.  In a
  dict-shaped line a missing \<^verbatim>\<open>product\<close>, \<^verbatim>\<open>price\<close> or \<^verbatim>\<open>quantity\<close> counts as 0; a
  \<^verbatim>\<open>CartItem\<close>-shaped line has to carry all three.
\<close>

definition dict_line_price :: "(string \<times> pyval) list \<Rightarrow> pyval option" where
  "dict_line_price d =
     (case map_of d ''product'' of
        None \<Rightarrow> Some (VInt 0)
      | Some (VDict p) \<Rightarrow> (case map_of p ''price'' of None \<Rightarrow> Some (VInt 0) | Some v \<Rightarrow> Some v)
      | Some _ \<Rightarrow> None)"

definition dict_line_quantity :: "(string \<times> pyval) list \<Rightarrow> pyval option" where
  "dict_line_quantity d =
     (case map_of d ''quantity'' of None \<Rightarrow> Some (VInt 0) | Some v \<Rightarrow> Some v)"

definition obj_line_price :: "(string \<times> pyval) list \<Rightarrow> pyval option" where
  "obj_line_price as =
     (case map_of as ''product'' of
        Some (VObj p) \<Rightarrow> map_of p ''price''
      | _ \<Rightarrow> None)"

definition obj_line_quantity :: "(string \<times> pyval) list \<Rightarrow> pyval option" where
  "obj_line_quantity as = map_of as ''quantity''"

definition amount_of :: "pyval option \<Rightarrow> pyval option \<Rightarrow> real" where
  \<comment> \<open>price times quantity when both are numbers, 0 for a malformed line\<close>
  "amount_of price quantity =
     (case (price, quantity) of
        (Some p, Some q) \<Rightarrow>
          (case (to_num p, to_num q) of
             (Some x, Some y) \<Rightarrow> num_real x * num_real y
           | _ \<Rightarrow> 0)
      | _ \<Rightarrow> 0)"

fun line_amount :: "pyval \<Rightarrow> real" where
  "line_amount (VDict d) = amount_of (dict_line_price d) (dict_line_quantity d)"
| "line_amount (VObj as) = amount_of (obj_line_price as) (obj_line_quantity as)"
| "line_amount _ = 0"

section \<open>The other tools (backend/tools.py)\<close>

fun py_iter :: "pyval \<Rightarrow> exn + pyval list" where
  \<comment> \<open>what a \<^verbatim>\<open>for\<close> loop runs over\<close>
  "py_iter (VList xs) = Inr xs"
| "py_iter (VStr s) = Inr (map (\<lambda>c. VStr [c]) s)"
| "py_iter (VDict d) = Inr (map (\<lambda>kv. VStr (fst kv)) d)"
| "py_iter _ = Inl (TypeError ''object is not iterable'')"

subsection \<open>tool\_search\_products\<close>

definition interpret_search_query :: "world \<Rightarrow> string \<Rightarrow> pyval" where
  \<comment> \<open>the parser chain, then the raw model call, then the fallback dict\<close>
  "interpret_search_query w user_query =
     (case llm_parse w user_query of
        Inr filters \<Rightarrow> filters
      | Inl e \<Rightarrow>
          (case llm_fallback w user_query of
             Inr parsed \<Rightarrow> parsed
           | Inl e2 \<Rightarrow>
               VDict [(''query'', VStr user_query), (''category'', VNone), (''color'', VNone),
                      (''size'', VNone), (''price_min'', VNone), (''price_max'', VNone)]))"

definition search_conditions :: "pyval \<Rightarrow> pyval \<Rightarrow> pyval \<Rightarrow> pyval \<Rightarrow> pyval \<Rightarrow> pyval \<Rightarrow> cond list" where
  \<comment> \<open>the \<^verbatim>\<open>conditions\<close> list, one entry per truthy filter, in the order of the source\<close>
  "search_conditions query category price_max price_min color sz =
     (if py_truthy category then [FamilyIs category] else [])
   @ (if py_truthy color then [ColorLike color] else [])
   @ (if py_truthy sz then [SizeLike sz] else [])
   @ (if py_truthy query then [NameOrDescriptionLike query] else [])
   @ (if py_truthy price_max then [PriceAtMost price_max] else [])
   @ (if py_truthy price_min then [PriceAtLeast price_min] else [])"

definition search_product_of :: "world \<Rightarrow> pyval \<Rightarrow> exn + pyval option" where
  \<comment> \<open>one round of \<^verbatim>\<open>for record in results['records']\<close>: the product dict, or nothing
      for a record without a price book entry\<close>
  "search_product_of w record =
     bind (py_get record ''PricebookEntries'' (VDict [])) (\<lambda>entries.
     bind (py_get entries ''records'' (VList [])) (\<lambda>pbe.
     if \<not> py_truthy pbe then Inr None
     else
       bind (py_getitem pbe (VInt 0)) (\<lambda>first.
       bind (product_dict_of record first) (\<lambda>product.
       bind (py_getitem record (VStr ''ProductCode'')) (\<lambda>code.
       case product of
         VDict kvs \<Rightarrow>
           Inr (Some (VDict (kvs @
             [(''url'', VStr (''https://store.example.com/product/'' @ py_str w code))])))
       | _ \<Rightarrow> Inr (Some product))))))"

fun search_products_of :: "world \<Rightarrow> pyval list \<Rightarrow> exn + pyval list" where
  "search_products_of w [] = Inr []"
| "search_products_of w (record # records) =
     bind (search_product_of w record) (\<lambda>p.
     bind (search_products_of w records) (\<lambda>ps.
     Inr (case p of None \<Rightarrow> ps | Some product \<Rightarrow> product # ps)))"

definition run_search :: "world \<Rightarrow> cond list \<Rightarrow> pyval list" where
  \<comment> \<open>the \<^verbatim>\<open>try\<close> block of the search: any exception gives the empty list\<close>
  "run_search w conditions =
     (case bind (sf_query w (ProductSearch conditions)) (\<lambda>results.
           bind (py_getitem results (VStr ''records'')) (\<lambda>records.
           bind (py_iter records) (\<lambda>rs. search_products_of w rs))) of
        Inl e \<Rightarrow> []
      | Inr products \<Rightarrow> products)"

definition tool_search_products ::
  "world \<Rightarrow> pyval \<Rightarrow> pyval \<Rightarrow> pyval \<Rightarrow> pyval \<Rightarrow> pyval \<Rightarrow> pyval \<Rightarrow> exn + pyval list" where
  "tool_search_products w query category price_max price_min color sz =
     (if \<not> py_truthy query then
        Inr (run_search w (search_conditions query category price_max price_min color sz))
      else
        (case query of
           VStr q \<Rightarrow>
             if length (py_split q) > 2 then
               (let filters = interpret_search_query w q in
                bind (py_get filters ''query'' VNone) (\<lambda>query'.
                bind (py_get filters ''category'' VNone) (\<lambda>category'.
                bind (py_get filters ''color'' VNone) (\<lambda>color'.
                bind (py_get filters ''size'' VNone) (\<lambda>sz'.
                bind (py_get filters ''price_min'' VNone) (\<lambda>price_min'.
                bind (py_get filters ''price_max'' VNone) (\<lambda>price_max'.
                Inr (run_search w
                  (search_conditions query' category' price_max' price_min' color' sz')))))))))
             else
               Inr (run_search w (search_conditions query category price_max price_min color sz))
         | _ \<Rightarrow> Inl (AttributeError ''split'')))"

definition search_keywords :: "string list" where
  "search_keywords = [''query'', ''category'', ''price_max'', ''price_min'', ''color'', ''size'']"

definition call_search_products :: "world \<Rightarrow> pyval \<Rightarrow> exn + pyval list" where
  \<comment> \<open>the call \<^verbatim>\<open>tool_search_products(**tool_args)\<close>: the keys have to be parameter
      names, an absent parameter is \<^verbatim>\<open>None\<close>\<close>
  "call_search_products w tool_args =
     (case tool_args of
        VDict d \<Rightarrow>
          if list_all (\<lambda>kv. fst kv \<in> set search_keywords) d then
            tool_search_products w
              (dict_get d ''query'' VNone) (dict_get d ''category'' VNone)
              (dict_get d ''price_max'' VNone) (dict_get d ''price_min'' VNone)
              (dict_get d ''color'' VNone) (dict_get d ''size'' VNone)
          else Inl (TypeError ''got an unexpected keyword argument'')
      | _ \<Rightarrow> Inl (TypeError ''argument after ** must be a mapping''))"

subsection \<open>tool\_place\_order\<close>

definition order_item_round :: "world \<Rightarrow> pyval \<Rightarrow> pyval list \<times> pyval \<Rightarrow> pyval \<Rightarrow> exn + (pyval list \<times> pyval)" where
  \<comment> \<open>one round of \<^verbatim>\<open>for item in items\<close> on \<^verbatim>\<open>(order_items, total_amount)\<close>\<close>
  "order_item_round w order_id acc item =
     bind (py_getitem item (VStr ''pricebook_entry_id'')) (\<lambda>entry_id.
     bind (sf_query w (UnitPriceOfEntry entry_id)) (\<lambda>pbe_query.
     bind (py_getitem pbe_query (VStr ''records'')) (\<lambda>records.
     bind (py_getitem records (VInt 0)) (\<lambda>first.
     bind (py_getitem first (VStr ''UnitPrice'')) (\<lambda>unit_price.
     bind (py_getitem item (VStr ''quantity'')) (\<lambda>quantity.
     bind (create_order_item w
             (VObj [(''OrderId'', order_id), (''PricebookEntryId'', entry_id),
                    (''Quantity'', quantity), (''UnitPrice'', unit_price)])) (\<lambda>item_result.
     if py_truthy item_result then
       bind (py_mul unit_price quantity) (\<lambda>amount.
       bind (py_add (snd acc) amount) (\<lambda>total_amount.
       Inr (fst acc @ [item_result], total_amount)))
     else Inr acc)))))))"

fun order_item_rounds :: "world \<Rightarrow> pyval \<Rightarrow> pyval list \<times> pyval \<Rightarrow> pyval list \<Rightarrow> exn + (pyval list \<times> pyval)" where
  "order_item_rounds w order_id acc [] = Inr acc"
| "order_item_rounds w order_id acc (item # items) =
     bind (order_item_round w order_id acc item) (\<lambda>acc'. order_item_rounds w order_id acc' items)"

definition place_order_body :: "world \<Rightarrow> pyval \<Rightarrow> pyval \<Rightarrow> pyval \<Rightarrow> exn + pyval" where
  "place_order_body w cust items checkout_source =
     bind (py_getitem cust (VStr ''email'')) (\<lambda>email.
     bind (py_getitem cust (VStr ''name'')) (\<lambda>name.
     bind (py_get cust ''phone'' (VStr [])) (\<lambda>phone.
     bind (upsert_account w email name phone) (\<lambda>account_id.
     bind (get_standard_pricebook w) (\<lambda>pricebook_id.
     bind (create_order w
             (VObj [(''AccountId'', account_id), (''Pricebook2Id'', pricebook_id),
                    (''EffectiveDate'', VStr (today w)), (''Status'', VStr ''Draft''),
                    (''CheckoutSource__c'', checkout_source)])) (\<lambda>order_result.
     if \<not> py_truthy order_result then Inr (failure ''Failed to create order'')
     else
       bind (py_getitem order_result (VStr ''id'')) (\<lambda>order_id.
       bind (py_iter items) (\<lambda>its.
       bind (order_item_rounds w order_id ([], VFloat 0) its) (\<lambda>(order_items, total_amount).
       bind (sf_query w (OrderNumberOfOrder order_id)) (\<lambda>order_query.
       bind (py_getitem order_query (VStr ''records'')) (\<lambda>records.
       bind (py_getitem records (VInt 0)) (\<lambda>first.
       bind (py_getitem first (VStr ''OrderNumber'')) (\<lambda>number.
       Inr (VDict [(''success'', VBool True), (''order_number'', number),
                   (''order_id'', order_id), (''total_amount'', total_amount),
                   (''items_count'', VInt (int (length order_items)))]))))))))))))))"

definition tool_place_order :: "world \<Rightarrow> pyval \<Rightarrow> pyval \<Rightarrow> pyval \<Rightarrow> pyval" where
  "tool_place_order w cust items checkout_source =
     (case place_order_body w cust items checkout_source of
        Inl e \<Rightarrow> failure (''Error placing order: '' @ exn_str e)
      | Inr result \<Rightarrow> result)"

subsection \<open>tool\_lookup\_order\<close>

definition order_summary :: "pyval \<Rightarrow> exn + (string \<times> pyval) list" where
  "order_summary order =
     bind (py_get order ''OrderNumber'' VNone) (\<lambda>number.
     bind (py_get order ''Status'' VNone) (\<lambda>status.
     bind (py_get order ''EffectiveDate'' VNone) (\<lambda>effective_date.
     bind (py_get order ''TotalAmount'' (VFloat 0)) (\<lambda>total_amount.
     Inr [(''order_number'', number), (''status'', status),
          (''effective_date'', effective_date), (''total_amount'', total_amount)]))))"

fun order_summaries :: "pyval list \<Rightarrow> exn + pyval list" where
  "order_summaries [] = Inr []"
| "order_summaries (order # orders) =
     bind (order_summary order) (\<lambda>d.
     bind (order_summaries orders) (\<lambda>ds. Inr (VDict d # ds)))"

definition lookup_order_body :: "world \<Rightarrow> pyval \<Rightarrow> pyval \<Rightarrow> exn + pyval" where
  \<comment> \<open>\<^verbatim>\<open>elif email\<close> belongs to \<^verbatim>\<open>if order_number\<close>: with an order number the email is
      never used\<close>
  "lookup_order_body w order_number email =
     (if py_truthy order_number then
        bind (get_order_status w order_number) (\<lambda>result.
        bind (py_getitem result (VStr ''records'')) (\<lambda>records.
        if py_truthy records then
          bind (py_getitem records (VInt 0)) (\<lambda>order.
          bind (order_summary order) (\<lambda>d.
          Inr (VDict ((''success'', VBool True) # d))))
        else Inr (failure ''No orders found'')))
      else if py_truthy email then
        bind (sf_query w (OrdersByEmail email)) (\<lambda>result.
        bind (py_getitem result (VStr ''records'')) (\<lambda>records.
        if py_truthy records then
          bind (py_iter records) (\<lambda>rs.
          bind (order_summaries rs) (\<lambda>orders.
          Inr (VDict [(''success'', VBool True), (''orders'', VList orders)])))
        else Inr (failure ''No orders found'')))
      else Inr (failure ''No orders found''))"

definition tool_lookup_order :: "world \<Rightarrow> pyval \<Rightarrow> pyval \<Rightarrow> pyval" where
  "tool_lookup_order w order_number email =
     (case lookup_order_body w order_number email of
        Inl e \<Rightarrow> failure (''Error looking up order: '' @ exn_str e)
      | Inr result \<Rightarrow> result)"

section \<open>The voice client (backend/voice\_client.py)\<close>

text \<open>
  The cart is a Python list that the session table of main.py and the state of the voice
  client share: \<^verbatim>\<open>voice_client.state["cart"] = active_sessions[session_id]["cart"]\<close>.
  List objects therefore live in a store, and a state holds the address of its cart.  An
  assignment of \<^verbatim>\<open>[]\<close> takes a fresh address; \<^verbatim>\<open>tool_add_to_cart\<close> changes the list at
  the address it is given.
\<close>

type_synonym addr = nat

record store =
  cells :: "addr \<Rightarrow> pyval list"
  next_free :: addr

definition alloc :: "pyval list \<Rightarrow> store \<Rightarrow> addr \<times> store" where
  "alloc xs h = (next_free h, h\<lparr>cells := (cells h)(next_free h := xs), next_free := Suc (next_free h)\<rparr>)"

definition assign :: "addr \<Rightarrow> pyval list \<Rightarrow> store \<Rightarrow> store" where
  "assign a xs h = h\<lparr>cells := (cells h)(a := xs)\<rparr>"

text \<open>The fields of \<^verbatim>\<open>AgentState\<close> that the client writes.\<close>

record agent_state =
  s_cart :: addr
  s_customer :: pyval
  s_order_number :: pyval
  s_conversation_history :: "string list"

text \<open>The upstream websocket: whether it is closed, and what has been sent on it.\<close>

record upstream =
  ws_closed :: bool
  ws_sent :: "pyval list"

record client =
  ws :: "upstream option"
  session_id :: pyval
  state :: agent_state
  is_connected :: bool
  keepalive_task :: bool

definition new_client :: "store \<Rightarrow> client \<times> store" where
  \<comment> \<open>\<^verbatim>\<open>RealtimeVoiceClient()\<close>\<close>
  "new_client h =
     (let (a, h') = alloc [] h
      in (\<lparr>ws = None, session_id = VNone,
           state = \<lparr>s_cart = a, s_customer = VNone, s_order_number = VNone,
                    s_conversation_history = []\<rparr>,
           is_connected = False, keepalive_task = False\<rparr>, h'))"

definition cart_of :: "store \<Rightarrow> client \<Rightarrow> pyval list" where
  \<comment> \<open>the list that \<^verbatim>\<open>self.state['cart']\<close> names\<close>
  "cart_of h c = cells h (s_cart (state c))"

subsection \<open>handle\_tool\_call\<close>

definition customer_of :: "pyval \<Rightarrow> exn + pyval" where
  \<comment> \<open>\<^verbatim>\<open>Customer(name=..., email=..., phone=customer_data.get("phone", ""))\<close>\<close>
  "customer_of customer_data =
     bind (py_getitem customer_data (VStr ''name'')) (\<lambda>name.
     bind (py_getitem customer_data (VStr ''email'')) (\<lambda>email.
     bind (py_get customer_data ''phone'' (VStr [])) (\<lambda>phone.
     Inr (VObj [(''name'', name), (''email'', email), (''phone'', phone)]))))"

definition place_order_branch :: "world \<Rightarrow> pyval \<Rightarrow> store \<times> client \<Rightarrow> (exn + pyval) \<times> store \<times> client" where
  \<comment> \<open>the customer is stored before the order is placed; the order number and the empty
      cart are stored only under \<^verbatim>\<open>if result["success"]\<close>\<close>
  "place_order_branch w tool_args hc =
     (let h = fst hc; c = snd hc in
      case bind (py_get tool_args ''customer'' VNone) (\<lambda>shown.
           bind (py_getitem tool_args (VStr ''customer'')) (\<lambda>customer_data.
           bind (customer_of customer_data) (\<lambda>cust. Inr (customer_data, cust)))) of
        Inl e \<Rightarrow> (Inl e, h, c)
      | Inr (customer_data, cust) \<Rightarrow>
          (let c1 = c\<lparr>state := (state c)\<lparr>s_customer := cust\<rparr>\<rparr> in
           case bind (py_getitem tool_args (VStr ''items'')) (\<lambda>items.
                bind (py_get tool_args ''checkout_source'' (VStr ''Voice'')) (\<lambda>source.
                Inr (tool_place_order w customer_data items source))) of
             Inl e \<Rightarrow> (Inl e, h, c1)
           | Inr result \<Rightarrow>
               (case py_getitem result (VStr ''success'') of
                  Inl e \<Rightarrow> (Inl e, h, c1)
                | Inr ok \<Rightarrow>
                    if py_truthy ok then
                      (case py_getitem result (VStr ''order_number'') of
                         Inl e \<Rightarrow> (Inl e, h, c1)
                       | Inr number \<Rightarrow>
                           (let (a, h') = alloc [] h in
                            (Inr result, h',
                             c1\<lparr>state := (state c1)\<lparr>s_order_number := number, s_cart := a\<rparr>\<rparr>)))
                    else (Inr result, h, c1))))"

definition add_to_cart_branch :: "world \<Rightarrow> pyval \<Rightarrow> store \<times> client \<Rightarrow> (exn + pyval) \<times> store \<times> client" where
  "add_to_cart_branch w tool_args hc =
     (let h = fst hc; c = snd hc in
      case bind (py_get tool_args ''product_name'' VNone) (\<lambda>shown.
           bind (py_getitem tool_args (VStr ''product_name'')) (\<lambda>product_name.
           bind (py_get tool_args ''quantity'' (VInt 1)) (\<lambda>quantity.
           Inr (tool_add_to_cart w product_name quantity (cart_of h c))))) of
        Inl e \<Rightarrow> (Inl e, h, c)
      | Inr (result, cart') \<Rightarrow>
          (case py_get result ''success'' VNone of
             Inl e \<Rightarrow> (Inl e, assign (s_cart (state c)) cart' h, c)
           | Inr ok \<Rightarrow> (Inr result, assign (s_cart (state c)) cart' h, c)))"

definition handle_tool_call_body :: "world \<Rightarrow> pyval \<Rightarrow> pyval \<Rightarrow> store \<times> client \<Rightarrow> (exn + pyval) \<times> store \<times> client" where
  \<comment> \<open>the \<^verbatim>\<open>try\<close> block: what it returns or raises, and the store and client it leaves\<close>
  "handle_tool_call_body w tool_name tool_args hc =
     (if tool_name = VStr ''search_products'' then
        (case call_search_products w tool_args of
           Inl e \<Rightarrow> (Inl e, hc)
         | Inr products \<Rightarrow>
             (Inr (VDict [(''success'', VBool True), (''products'', VList products),
                          (''count'', VInt (int (length products)))]), hc))
      else if tool_name = VStr ''add_to_cart'' then add_to_cart_branch w tool_args hc
      else if tool_name = VStr ''place_salesforce_order'' then place_order_branch w tool_args hc
      else if tool_name = VStr ''lookup_order_status'' then
        (case bind (py_get tool_args ''order_number'' VNone) (\<lambda>order_number.
              bind (py_get tool_args ''email'' VNone) (\<lambda>email.
              Inr (tool_lookup_order w order_number email))) of
           Inl e \<Rightarrow> (Inl e, hc)
         | Inr result \<Rightarrow> (Inr result, hc))
      else (Inr (failure (''Unknown tool: '' @ py_str w tool_name)), hc))"

definition handle_tool_call :: "world \<Rightarrow> pyval \<Rightarrow> pyval \<Rightarrow> store \<times> client \<Rightarrow> (exn + pyval) \<times> store \<times> client" where
  \<comment> \<open>\<^verbatim>\<open>except Exception\<close> turns what the block raised into a failure result\<close>
  "handle_tool_call w tool_name tool_args hc =
     (case handle_tool_call_body w tool_name tool_args hc of
        (Inl e, hc') \<Rightarrow> (Inr (failure (''Tool execution error: '' @ exn_str e)), hc')
      | (Inr result, hc') \<Rightarrow> (Inr result, hc'))"

section \<open>An example world\<close>

text \<open>
  A gateway that knows one product, a wallet at 35, accepts an order and numbers it
  00000104, and finds no order when asked for one.  It is the concrete input of the
  examples below.
\<close>

definition example_product_record :: pyval where
  "example_product_record =
     VDict [(''Id'', VStr ''P1''), (''Name'', VStr ''Wallet''),
            (''PricebookEntries'',
               VDict [(''records'', VList [VDict [(''Id'', VStr ''E1''), (''UnitPrice'', VFloat 35)]])])]"

definition example_world :: world where
  "example_world =
     \<lparr> sf_query = (\<lambda>q. case q of
                      ProductByName n \<Rightarrow> Inr (VDict [(''records'', VList [example_product_record])])
                    | OrdersByEmail e \<Rightarrow> Inr (VDict [(''records'', VList [])])
                    | UnitPriceOfEntry e \<Rightarrow>
                        Inr (VDict [(''records'', VList [VDict [(''UnitPrice'', VFloat 35)]])])
                    | OrderNumberOfOrder i \<Rightarrow>
                        Inr (VDict [(''records'', VList [VDict [(''OrderNumber'', VStr ''00000104'')]])])
                    | ProductSearch cs \<Rightarrow> Inl (OtherError ''unavailable'')),
       upsert_account = (\<lambda>email name phone. Inr (VStr ''A1'')),
       get_standard_pricebook = Inr (VStr ''PB1''),
       create_order = (\<lambda>order. Inr (VDict [(''id'', VStr ''O1'')])),
       create_order_item = (\<lambda>item. Inr (VDict [(''id'', VStr ''I1'')])),
       get_order_status = (\<lambda>n. Inr (VDict [(''records'', VList [])])),
       llm_parse = (\<lambda>q. Inl (OtherError ''unavailable'')),
       llm_fallback = (\<lambda>q. Inl (OtherError ''unavailable'')),
       json_loads = (\<lambda>s. Inl (OtherError ''unavailable'')),
       b64decode = (\<lambda>s. Inl (OtherError ''unavailable'')),
       repr_other = (\<lambda>v. ''?''),
       today = ''2025-01-01'',
       now_iso = ''2025-01-01T00:00:00'' \<rparr>"






definition empty_store :: store where
  "empty_store = \<lparr>cells = (\<lambda>a. []), next_free = 0\<rparr>"

definition example_session :: "store \<times> client" where
  \<comment> \<open>a fresh voice client, not yet connected\<close>
  "example_session = (case new_client empty_store of (c, h) \<Rightarrow> (h, c))"

section \<open>Properties\<close>

subsection \<open>The cart total\<close>

lemma mul_add_amount:
  "(case bind (py_mul p q) (total_add tot) of
      Inl e \<Rightarrow> amount_of (Some p) (Some q) = 0
    | Inr t \<Rightarrow> t = tot + amount_of (Some p) (Some q))"
proof (cases "to_num p")
  case None
  then show ?thesis
    by (cases "to_num q"; cases q; cases p)
       (auto simp: py_mul_def bind_def total_add_def amount_of_def split: num.splits)
next
  case (Some x)
  then show ?thesis
    by (cases "to_num q"; cases x; cases q)
       (auto simp: py_mul_def bind_def total_add_def amount_of_def split: num.splits)
qed

lemma add_item_total_amount:
  "(case add_item_total tot item of
      Inl e \<Rightarrow> line_amount item = 0
    | Inr t \<Rightarrow> t = tot + line_amount item)"
proof (cases item)
  case (VDict d)
  show ?thesis
  proof (cases "dict_line_price d")
    case None
    then show ?thesis using VDict
      by (auto simp: add_item_total_def item_price_quantity_def bind_def dict_get_def
          dict_line_price_def amount_of_def split: option.splits pyval.splits)
  next
    case (Some p)
    then have "add_item_total tot item = bind (py_mul p (dict_get d ''quantity'' (VInt 0))) (total_add tot)"
      using VDict
      by (auto simp: add_item_total_def item_price_quantity_def bind_def dict_get_def
          dict_line_price_def split: option.splits pyval.splits)
    moreover have "dict_line_quantity d = Some (dict_get d ''quantity'' (VInt 0))"
      by (simp add: dict_line_quantity_def dict_get_def split: option.splits)
    ultimately show ?thesis using VDict Some mul_add_amount[where p=p and q="dict_get d ''quantity'' (VInt 0)" and tot=tot]
      by (auto split: sum.splits)
  qed
next
  case (VObj as)
  show ?thesis
  proof (cases "obj_line_price as")
    case None
    then show ?thesis using VObj
      by (auto simp: add_item_total_def item_price_quantity_def bind_def
          obj_line_price_def amount_of_def split: option.splits pyval.splits)
  next
    case (Some p)
    show ?thesis
    proof (cases "obj_line_quantity as")
      case None
      then show ?thesis using VObj Some
        by (auto simp: add_item_total_def item_price_quantity_def bind_def
          obj_line_price_def obj_line_quantity_def amount_of_def split: option.splits pyval.splits)
    next
      case (Some q)
      then have "add_item_total tot item = bind (py_mul p q) (total_add tot)"
        using VObj \<open>obj_line_price as = Some p\<close>
        by (auto simp: add_item_total_def item_price_quantity_def bind_def
          obj_line_price_def obj_line_quantity_def split: option.splits pyval.splits)
      then show ?thesis using VObj Some \<open>obj_line_price as = Some p\<close> mul_add_amount[where p=p and q=q and tot=tot]
        by (auto split: sum.splits)
    qed
  qed
qed (simp_all add: add_item_total_def item_price_quantity_def bind_def)

lemma cart_total_from_sum:
  "cart_total_from tot cart = Inr (tot + sum_list (map line_amount cart))"
proof (induction cart arbitrary: tot)
  case Nil
  show ?case by simp
next
  case (Cons item cart)
  show ?case
    using add_item_total_amount[where tot=tot and item=item] Cons.IH
    by (auto split: sum.splits)
qed


subsection \<open>One line per product\<close>









lemma calculate_cart_total_Inr: "\<exists>t. calculate_cart_total c = Inr t"
  by (simp add: calculate_cart_total_def cart_total_from_sum)

















subsection \<open>Order lookup\<close>

lemma lookup_order_none:
  assumes "py_truthy order_number \<longrightarrow>
             (case get_order_status w order_number of
                Inr r \<Rightarrow> py_getitem r (VStr ''records'') = Inr (VList []) | Inl e \<Rightarrow> False)"
    and "\<not> py_truthy order_number \<and> py_truthy email \<longrightarrow>
             (case sf_query w (OrdersByEmail email) of
                Inr r \<Rightarrow> py_getitem r (VStr ''records'') = Inr (VList []) | Inl e \<Rightarrow> False)"
  shows "tool_lookup_order w order_number email = failure ''No orders found''"
  using assms
  by (auto simp: tool_lookup_order_def lookup_order_body_def bind_def split: sum.splits)

text \<open>
  Claim C7.  A \<^verbatim>\<open>lookup_order_status\<close> call whose gateway query returns no matching order
  (asked by order number, or by email when no order number is given, or with neither)
  gives the result \<^verbatim>\<open>{"success": False, "message": "No orders found"}\<close>, and leaves the
  client as it was.
\<close>

theorem lookup_order_status_no_orders:
  assumes "py_truthy (dict_get d ''order_number'' VNone) \<longrightarrow>
             (case get_order_status w (dict_get d ''order_number'' VNone) of
                Inr r \<Rightarrow> py_getitem r (VStr ''records'') = Inr (VList []) | Inl e \<Rightarrow> False)"
    and "\<not> py_truthy (dict_get d ''order_number'' VNone) \<and> py_truthy (dict_get d ''email'' VNone) \<longrightarrow>
             (case sf_query w (OrdersByEmail (dict_get d ''email'' VNone)) of
                Inr r \<Rightarrow> py_getitem r (VStr ''records'') = Inr (VList []) | Inl e \<Rightarrow> False)"
  shows "handle_tool_call w (VStr ''lookup_order_status'') (VDict d) hc =
           (Inr (VDict [(''success'', VBool False), (''message'', VStr ''No orders found'')]), hc)"
  using lookup_order_none[OF assms]
  by (simp add: handle_tool_call_def handle_tool_call_body_def bind_def failure_def)

text \<open>By order number, by email and with no argument, at the example world.\<close>

theorem lookup_order_status_no_orders_witness:
  "handle_tool_call example_world (VStr ''lookup_order_status'')
       (VDict [(''order_number'', VStr ''00000103'')]) example_session =
     (Inr (VDict [(''success'', VBool False), (''message'', VStr ''No orders found'')]), example_session)
 \<and> handle_tool_call example_world (VStr ''lookup_order_status'')
       (VDict [(''email'', VStr ''x@example.com'')]) example_session =
     (Inr (VDict [(''success'', VBool False), (''message'', VStr ''No orders found'')]), example_session)
 \<and> handle_tool_call example_world (VStr ''lookup_order_status'') (VDict []) example_session =
     (Inr (VDict [(''success'', VBool False), (''message'', VStr ''No orders found'')]), example_session)"
proof (intro conjI)
  show "handle_tool_call example_world (VStr ''lookup_order_status'')
       (VDict [(''order_number'', VStr ''00000103'')]) example_session =
     (Inr (VDict [(''success'', VBool False), (''message'', VStr ''No orders found'')]), example_session)"
    by (rule lookup_order_status_no_orders)
       (simp_all add: dict_get_def example_world_def dict_item_def)
  show "handle_tool_call example_world (VStr ''lookup_order_status'')
       (VDict [(''email'', VStr ''x@example.com'')]) example_session =
     (Inr (VDict [(''success'', VBool False), (''message'', VStr ''No orders found'')]), example_session)"
    by (rule lookup_order_status_no_orders)
       (simp_all add: dict_get_def example_world_def dict_item_def)
  show "handle_tool_call example_world (VStr ''lookup_order_status'') (VDict []) example_session =
     (Inr (VDict [(''success'', VBool False), (''message'', VStr ''No orders found'')]), example_session)"
    by (rule lookup_order_status_no_orders)
       (simp_all add: dict_get_def)
qed

subsection \<open>The dispatcher never raises\<close>











end
